theory Spec2Isabelle
  imports Complex_Main
begin

section \<open>Data model of package eyetribe\<close>

text \<open>
  Conventions of the embedding.
  \<^item> A Go \<^verbatim>\<open>float64\<close> is a \<^typ>\<open>real\<close>: the code only compares coordinates, adds a
    width to an origin and forms weighted sums, and every value comes from JSON, which has
    no NaN and no infinity.
  \<^item> A \<^verbatim>\<open>time.Time\<close> is an \<^typ>\<open>int\<close>, the nanoseconds since some epoch, and a
    \<^verbatim>\<open>time.Duration\<close> is an \<^typ>\<open>int\<close> of nanoseconds; \<^verbatim>\<open>a.Sub(b)\<close> is \<open>a - b\<close>.
    Every reading of \<^verbatim>\<open>time.Now()\<close> is a parameter of the function that reads it.
  \<^item> Go's \<^verbatim>\<open>int\<close> and \<^verbatim>\<open>int64\<close> are unbounded \<^typ>\<open>int\<close>; the model agrees with
    the code wherever the 64-bit arithmetic does not overflow.
  \<^item> A pointer that may be nil is an \<^typ>\<open>'a option\<close>; the list \<^verbatim>\<open>container/list.List\<close>
    of \<^verbatim>\<open>*Frame\<close> is a \<^typ>\<open>'a option list\<close>, front first.
  \<^item> Struct fields keep their Go names behind the struct's name, since Isabelle's record
    fields share one name space (\<^verbatim>\<open>Frame.Avg\<close> is \<open>Frame_Avg\<close>).
  \<^item> A run-time panic (nil dereference, failed type assertion) is the value
    \<open>Inl (Panic _)\<close>, a returned Go error is \<open>Inl (Error _)\<close>.
\<close>

type_synonym Time = int

definition Millisecond :: int where
  "Millisecond = 1000000"

datatype failure = Error string | Panic string

record Point =
  Point_X :: real
  Point_Y :: real

record EyeData =
  EyeData_Raw :: "Point option"
  EyeData_Avg :: "Point option"
  EyeData_Psize :: real
  EyeData_Pcenter :: "Point option"

record Frame =
  Frame_Timestamp :: string
  Frame_Time :: real
  Frame_Fix :: bool
  Frame_State :: int
  Frame_Raw :: "Point option"
  Frame_Avg :: "Point option"
  Frame_LeftEye :: "EyeData option"
  Frame_RightEye :: "EyeData option"
  Frame_GoTime :: Time

record OneFrameMessage =
  Msg_Category :: string
  Msg_Request :: string
  Msg_StatusCode :: int
  Msg_Values :: "string \<rightharpoonup> Frame option"

record EyeTrackCheckPoint =
  CheckPoint_X :: real
  CheckPoint_Y :: real
  CheckPoint_Width :: real
  CheckPoint_Height :: real
  CheckPoint_Name :: string

record EyeTrackCheckConfig =
  Config_Fixation :: "(string \<rightharpoonup> int) option"
  Config_TargetList :: "EyeTrackCheckPoint option list"

type_synonym EyeTrackCheckResult = "string \<rightharpoonup> bool"

record FixateData =
  Fixate_X :: real
  Fixate_Y :: real
  Fixate_GoTime :: Time

text \<open>The values \<^verbatim>\<open>encoding/json\<close> decodes into an \<^verbatim>\<open>interface{}\<close>.\<close>

datatype JsonValue =
    JNull
  | JBool bool
  | JNumber real
  | JString string
  | JArray "JsonValue list"
  | JObject "(string \<times> JsonValue) list"

record ResponseMessage =
  Response_Category :: string
  Response_Request :: string
  Response_StatusCode :: int
  Response_Values :: "string \<rightharpoonup> JsonValue"

text \<open>
  The fields of \<^verbatim>\<open>EyeTribeConnection\<close> that hold data. \<open>HeartbeatTaskInterval\<close> is
  not a field of the Go struct: it records the interval \<^verbatim>\<open>StartHeartbeatTask\<close> was
  started with.
\<close>

record EyeTribeConnection =
  ScreenWidth :: int
  ScreenHeight :: int
  HeartbeatTimeoutMillisecond :: int
  FrameList :: "Frame option list"
  CheckConfig :: EyeTrackCheckConfig
  HeartbeatTaskInterval :: int

section \<open>Connecting: CreateServerConnection, GetServerStatus, ConvInterfaceToInt64\<close>

text \<open>Go's conversion \<^verbatim>\<open>int64(x)\<close> of a float64 truncates towards zero.\<close>

definition int64_of_float64 :: "real \<Rightarrow> int" where
  "int64_of_float64 x = (if 0 \<le> x then \<lfloor>x\<rfloor> else \<lceil>x\<rceil>)"

text \<open>
  \<^verbatim>\<open>val.(float64)\<close> is a type assertion in its one-value form: on a value of another
  type it panics.
\<close>

definition ConvInterfaceToInt64 :: "(string \<rightharpoonup> JsonValue) \<Rightarrow> string \<Rightarrow> failure + int" where
  "ConvInterfaceToInt64 v name =
     (case v name of
        None \<Rightarrow> Inl (Error (''value has no '' @ [CHR 0x22] @ name @ [CHR 0x22] @ '' field''))
      | Some val \<Rightarrow>
          (case val of
             JNumber x \<Rightarrow> Inr (int64_of_float64 x)
           | _ \<Rightarrow> Inl (Panic ''interface conversion: interface {} is not float64'')))"

text \<open>
  \<open>GetServerStatus c exchange\<close>: \<open>exchange\<close> is what \<^verbatim>\<open>c.Connection.RequestOne\<close>
  gave, an error text or the decoded response. The function writes three fields of
  \<open>c\<close>; the model returns the updated \<open>c\<close> with the two results.
\<close>

definition GetServerStatus ::
  "EyeTribeConnection \<Rightarrow> string + ResponseMessage \<Rightarrow> failure + (EyeTribeConnection \<times> bool \<times> int)" where
  "GetServerStatus c exchange =
     (case exchange of
        Inl err \<Rightarrow> Inl (Error err)
      | Inr response \<Rightarrow>
          if Response_StatusCode response \<noteq> 200
          then Inl (Error ''server response code is not 200'')
          else
            (case Response_Values response ''iscalibrated'' of
               None \<Rightarrow> Inl (Error ''server response has no iscalibrated field'')
             | Some iscalibrated \<Rightarrow>
                 (case ConvInterfaceToInt64 (Response_Values response) ''heartbeatinterval'' of
                    Inl err \<Rightarrow> Inl err
                  | Inr interval \<Rightarrow>
                      if interval \<le> 0
                      then Inl (Error ''server return heartbeatinterval is invalid'')
                      else
                        (case ConvInterfaceToInt64 (Response_Values response) ''screenresw'' of
                           Inl err \<Rightarrow> Inl err
                         | Inr w \<Rightarrow>
                             (case ConvInterfaceToInt64 (Response_Values response) ''screenresh'' of
                                Inl err \<Rightarrow> Inl err
                              | Inr h \<Rightarrow>
                                  (case ConvInterfaceToInt64 (Response_Values response) ''framerate'' of
                                     Inl err \<Rightarrow> Inl err
                                   | Inr fr \<Rightarrow>
                                       (case iscalibrated of
                                          JBool b \<Rightarrow>
                                            Inr (c\<lparr>ScreenWidth := w, ScreenHeight := h,
                                                    HeartbeatTimeoutMillisecond := fr\<rparr>,
                                                 b, interval * Millisecond)
                                        | _ \<Rightarrow> Inl (Panic ''interface conversion: interface {} is not bool''))))))))"

text \<open>
  What the network did for \<^verbatim>\<open>CreateServerConnection\<close>: the address did not resolve,
  the dial failed, or the socket is open and the status exchange gave \<open>exchange\<close>.
\<close>

datatype dial_result =
    ResolveFailed string
  | DialFailed string
  | Dialed "string + ResponseMessage"

definition new_connection :: EyeTribeConnection where
  "new_connection =
     \<lparr>ScreenWidth = 0, ScreenHeight = 0, HeartbeatTimeoutMillisecond = 0, FrameList = [],
      CheckConfig = \<lparr>Config_Fixation = None, Config_TargetList = []\<rparr>,
      HeartbeatTaskInterval = 0\<rparr>"

definition CreateServerConnection :: "dial_result \<Rightarrow> failure + EyeTribeConnection" where
  "CreateServerConnection d =
     (case d of
        ResolveFailed err \<Rightarrow> Inl (Error err)
      | DialFailed err \<Rightarrow> Inl (Error err)
      | Dialed exchange \<Rightarrow>
          (case GetServerStatus new_connection exchange of
             Inl err \<Rightarrow> Inl err
           | Inr (ret, calibrated, interval) \<Rightarrow>
               if calibrated \<noteq> True
               then Inl (Error ''Server is not calibrated'')
               else Inr (ret\<lparr>HeartbeatTaskInterval := interval div 2\<rparr>)))"

section \<open>Ingestion: PullOneFrame, AddOneFrame and the loop of StartPullFrameTask\<close>

text \<open>
  \<open>PullOneFrame decoded now\<close>: \<open>decoded\<close> is what the JSON decoder gave, \<open>now\<close> the clock.
  \<^verbatim>\<open>Values\<close> maps to \<^verbatim>\<open>*Frame\<close>, so the key \<^verbatim>\<open>frame\<close> can be present with a nil
  pointer (JSON null); \<^verbatim>\<open>frame.GoTime = time.Now()\<close> then dereferences nil. The write to
  the log file is not modelled.
\<close>

definition PullOneFrame :: "string + OneFrameMessage \<Rightarrow> Time \<Rightarrow> failure + Frame option" where
  "PullOneFrame decoded now =
     (case decoded of
        Inl err \<Rightarrow> Inl (Error err)
      | Inr response \<Rightarrow>
          if Msg_StatusCode response \<noteq> 200 then Inr None
          else if Msg_Category response = ''heartbeat'' then Inr None
          else
            (case Msg_Values response ''frame'' of
               None \<Rightarrow> Inr None
             | Some None \<Rightarrow> Inl (Panic ''nil pointer dereference'')
             | Some (Some frame) \<Rightarrow> Inr (Some (frame\<lparr>Frame_GoTime := now\<rparr>))))"

text \<open>
  \<open>AddOneFrame fl frame numFrames\<close> for a non-nil receiver with frame list \<open>fl\<close>.
  \<^verbatim>\<open>FrameList.Remove(FrameList.Front())\<close> on an empty list passes nil to
  \<^verbatim>\<open>Remove\<close>, which dereferences it.
\<close>

definition AddOneFrame :: "Frame option list \<Rightarrow> Frame option \<Rightarrow> int \<Rightarrow> failure + Frame option list" where
  "AddOneFrame fl frame numFrames =
     (if int (length fl) \<ge> numFrames
      then (case fl of
              [] \<Rightarrow> Inl (Panic ''nil pointer dereference'')
            | front # rest \<Rightarrow> Inr (rest @ [frame]))
      else Inr (fl @ [frame]))"

text \<open>A run of \<open>AddOneFrame\<close> calls, stopping at the first failure.\<close>

fun add_frames :: "int \<Rightarrow> Frame option list \<Rightarrow> Frame option list \<Rightarrow> failure + Frame option list" where
  "add_frames numFrames fl [] = Inr fl"
| "add_frames numFrames fl (frame # frames) =
     (case AddOneFrame fl frame numFrames of
        Inl err \<Rightarrow> Inl err
      | Inr fl' \<Rightarrow> add_frames numFrames fl' frames)"

text \<open>
  The goroutine of \<^verbatim>\<open>StartPullFrameTask\<close>. Each turn of its loop either finds the quit
  signal or takes the default branch, which decodes one message at some clock reading.
\<close>

datatype pull_event = QuitSignal | Incoming "string + OneFrameMessage" Time

datatype task_state = Running | Quit | Crashed

definition pull_iteration :: "int \<Rightarrow> Frame option list \<Rightarrow> pull_event \<Rightarrow> task_state \<times> Frame option list" where
  "pull_iteration numFrames fl ev =
     (case ev of
        QuitSignal \<Rightarrow> (Quit, fl)
      | Incoming decoded now \<Rightarrow>
          (case PullOneFrame decoded now of
             Inl (Error err) \<Rightarrow> (Quit, fl)
           | Inl (Panic p) \<Rightarrow> (Crashed, fl)
           | Inr frame \<Rightarrow>
               (case AddOneFrame fl frame numFrames of
                  Inl (Error err) \<Rightarrow> (Quit, fl)
                | Inl (Panic p) \<Rightarrow> (Crashed, fl)
                | Inr fl' \<Rightarrow> (Running, fl'))))"

fun pull_task :: "int \<Rightarrow> Frame option list \<Rightarrow> pull_event list \<Rightarrow> task_state \<times> Frame option list" where
  "pull_task numFrames fl [] = (Running, fl)"
| "pull_task numFrames fl (ev # evs) =
     (case pull_iteration numFrames fl ev of
        (Running, fl') \<Rightarrow> pull_task numFrames fl' evs
      | (Quit, fl') \<Rightarrow> (Quit, fl')
      | (Crashed, fl') \<Rightarrow> (Crashed, fl'))"

section \<open>Fixation detector: GetFixationDataList\<close>

text \<open>
  The local variables of \<^verbatim>\<open>GetFixationDataList\<close> that the loop updates.
  \<^verbatim>\<open>distance2\<close> and \<^verbatim>\<open>min_msec\<close> do not change in the loop and are parameters.
\<close>

record fixation_vars =
  v_result :: "FixateData list"
  v_PrevX :: real
  v_PrevY :: real
  v_PrevTime :: Time
  v_CurrentTime :: Time
  v_check_time :: Time
  v_AverageX :: real
  v_AverageY :: real
  v_fixate_count :: int
  v_fixate_count_sum :: int

text \<open>
  The variables before the loop. \<open>now0\<close> and \<open>now1\<close> are the two readings of the clock
  that initialise \<^verbatim>\<open>PrevTime\<close> and \<^verbatim>\<open>CurrentTime\<close>; the front element of the list
  overrides them when its frame is not nil, and its \<^verbatim>\<open>Avg\<close>, when not nil, overrides
  the coordinates.
\<close>

definition fixation_init :: "Frame option list \<Rightarrow> Time \<Rightarrow> Time \<Rightarrow> int \<Rightarrow> fixation_vars" where
  "fixation_init fl now0 now1 min_msec =
     (let front_frame = (case fl of [] \<Rightarrow> None | front # rest \<Rightarrow> front);
          PrevTime = (case front_frame of None \<Rightarrow> now0 | Some fr \<Rightarrow> Frame_GoTime fr);
          CurrentTime = (case front_frame of None \<Rightarrow> now1 | Some fr \<Rightarrow> Frame_GoTime fr);
          front_avg = (case front_frame of None \<Rightarrow> None | Some fr \<Rightarrow> Frame_Avg fr);
          PrevX = (case front_avg of None \<Rightarrow> - 1000000 | Some avg \<Rightarrow> Point_X avg);
          PrevY = (case front_avg of None \<Rightarrow> - 1000000 | Some avg \<Rightarrow> Point_Y avg)
      in \<lparr>v_result = [], v_PrevX = PrevX, v_PrevY = PrevY, v_PrevTime = PrevTime,
          v_CurrentTime = CurrentTime,
          v_check_time = PrevTime + Millisecond * min_msec,
          v_AverageX = PrevX, v_AverageY = PrevY,
          v_fixate_count = 0, v_fixate_count_sum = 0\<rparr>)"

text \<open>One turn of the loop over the frame list.\<close>

definition fixation_step :: "real \<Rightarrow> int \<Rightarrow> fixation_vars \<Rightarrow> Frame option \<Rightarrow> fixation_vars" where
  "fixation_step distance2 min_msec s f =
     (case f of
        None \<Rightarrow> s
      | Some frame \<Rightarrow>
          (case Frame_Avg frame of
             None \<Rightarrow> s
           | Some avg \<Rightarrow>
               if Point_X avg \<le> 0 \<and> Point_Y avg \<le> 0 then s
               else
                 (let X = Point_X avg; Y = Point_Y avg; t = Frame_GoTime frame;
                      xx = v_PrevX s - X; yy = v_PrevY s - Y
                  in if distance2 < xx * xx + yy * yy
                     then
                       s\<lparr>v_result :=
                            (if v_check_time s - t < 0 \<and> v_fixate_count s > 1
                             then v_result s @
                                  [\<lparr>Fixate_X = v_AverageX s, Fixate_Y = v_AverageY s,
                                    Fixate_GoTime = v_PrevTime s\<rparr>]
                             else v_result s),
                         v_fixate_count := 0,
                         v_PrevTime := t,
                         v_check_time := t + Millisecond * min_msec,
                         v_PrevX := X, v_PrevY := Y,
                         v_AverageX := X, v_AverageY := Y\<rparr>
                     else
                       (let fixate_count = v_fixate_count s + 1;
                            alpha = 1 / (1 + real_of_int fixate_count);
                            a = 1 - alpha; b = alpha
                        in s\<lparr>v_fixate_count := fixate_count,
                             v_fixate_count_sum := v_fixate_count_sum s + 1,
                             v_CurrentTime := t,
                             v_AverageX := a * v_AverageX s + b * v_PrevX s,
                             v_AverageY := a * v_AverageY s + b * v_PrevY s\<rparr>))))"

definition fixation_loop :: "real \<Rightarrow> int \<Rightarrow> fixation_vars \<Rightarrow> Frame option list \<Rightarrow> fixation_vars" where
  "fixation_loop distance2 min_msec s fl = foldl (fixation_step distance2 min_msec) s fl"

text \<open>The statement after the loop, which adds what is left.\<close>

definition fixation_flush :: "fixation_vars \<Rightarrow> FixateData list" where
  "fixation_flush s =
     (if v_fixate_count s > 0 \<and> v_check_time s - v_CurrentTime s < 0
      then v_result s @
           [\<lparr>Fixate_X = v_AverageX s, Fixate_Y = v_AverageY s, Fixate_GoTime = v_PrevTime s\<rparr>]
      else v_result s)"

text \<open>
  \<^verbatim>\<open>c.CheckConfig.Fixation\<close> is a pointer to a map; \<^verbatim>\<open>(*fixation)["max distance"]\<close>
  dereferences it before anything else is done.
\<close>

definition GetFixationDataList ::
  "EyeTrackCheckConfig \<Rightarrow> Frame option list \<Rightarrow> Time \<Rightarrow> Time \<Rightarrow> failure + FixateData list" where
  "GetFixationDataList cfg fl now0 now1 =
     (case Config_Fixation cfg of
        None \<Rightarrow> Inl (Panic ''nil pointer dereference'')
      | Some fixation \<Rightarrow>
          (let max_distance = (case fixation ''max distance'' of None \<Rightarrow> 50 | Some d \<Rightarrow> d);
               min_msec = (case fixation ''min msec'' of None \<Rightarrow> 100 | Some m \<Rightarrow> m);
               distance2 = real_of_int (max_distance * max_distance)
           in Inr (fixation_flush
                     (fixation_loop distance2 min_msec (fixation_init fl now0 now1 min_msec) fl))))"

section \<open>Heat map: CreateHeatMapImage\<close>

text \<open>
  The image library is outside the repository. \<open>blank w h\<close> stands for the transparent
  canvas \<^verbatim>\<open>image.NewRGBA\<close> and the first \<^verbatim>\<open>draw.Draw\<close> make, \<open>draw brush img r\<close> for
  \<^verbatim>\<open>draw.Draw(img, r, brush, image.ZP, draw.Over)\<close>, and \<open>loaded\<close> for what
  \<^verbatim>\<open>LoadHeatMapDrawImage\<close> gave: an error text or the brush.
\<close>

type_synonym Rectangle = "int \<times> int \<times> int \<times> int"

text \<open>\<^verbatim>\<open>image.Rect\<close> orders the corners it is given.\<close>

definition Rect :: "int \<Rightarrow> int \<Rightarrow> int \<Rightarrow> int \<Rightarrow> Rectangle" where
  "Rect x0 y0 x1 y1 =
     ((if x0 > x1 then x1 else x0), (if y0 > y1 then y1 else y0),
      (if x0 > x1 then x0 else x1), (if y0 > y1 then y0 else y1))"

definition heatmap_step :: "('img \<Rightarrow> Rectangle \<Rightarrow> 'img) \<Rightarrow> 'img \<Rightarrow> Frame option \<Rightarrow> 'img" where
  "heatmap_step draw_over img f =
     (case f of
        None \<Rightarrow> img
      | Some frame \<Rightarrow>
          (case Frame_Avg frame of
             None \<Rightarrow> img
           | Some avg \<Rightarrow>
               if Point_X avg \<le> 0 \<and> Point_Y avg \<le> 0 then img
               else
                 (let drawWidth = 100; drawHeight = 100;
                      x = Point_X avg; y = Point_Y avg;
                      x_start = x - drawWidth / 2; y_start = y - drawHeight / 2;
                      x_end = x + drawWidth / 2; y_end = y + drawHeight / 2
                  in draw_over img
                       (Rect (int64_of_float64 x_start) (int64_of_float64 y_start)
                             (int64_of_float64 x_end) (int64_of_float64 y_end)))))"

definition CreateHeatMapImage ::
  "('brush \<Rightarrow> 'img \<Rightarrow> Rectangle \<Rightarrow> 'img) \<Rightarrow> (int \<Rightarrow> int \<Rightarrow> 'img) \<Rightarrow> string + 'brush \<Rightarrow>
   EyeTribeConnection \<Rightarrow> failure + 'img" where
  "CreateHeatMapImage draw blank loaded c =
     (case loaded of
        Inl err \<Rightarrow> Inl (Error err)
      | Inr drawImage \<Rightarrow>
          Inr (foldl (heatmap_step (draw drawImage)) (blank (ScreenWidth c) (ScreenHeight c))
                 (FrameList c)))"

section \<open>Region check: ServeEyeTrackCheck and ServeEyeTrackCheckFixation\<close>

text \<open>The inner loop over \<^verbatim>\<open>c.CheckConfig.TargetList\<close>, the same in both handlers.\<close>

definition check_target :: "real \<Rightarrow> real \<Rightarrow> EyeTrackCheckResult \<Rightarrow> EyeTrackCheckPoint option \<Rightarrow> EyeTrackCheckResult" where
  "check_target x y res v =
     (case v of
        None \<Rightarrow> res
      | Some v \<Rightarrow>
          if x \<ge> CheckPoint_X v \<and> x \<le> CheckPoint_X v + CheckPoint_Width v \<and>
             y \<ge> CheckPoint_Y v \<and> y \<le> CheckPoint_Y v + CheckPoint_Height v
          then res(CheckPoint_Name v \<mapsto> True)
          else res(CheckPoint_Name v \<mapsto> False))"

definition check_targets :: "EyeTrackCheckPoint option list \<Rightarrow> real \<Rightarrow> real \<Rightarrow> EyeTrackCheckResult \<Rightarrow> EyeTrackCheckResult" where
  "check_targets targets x y res = foldl (check_target x y) res targets"

definition check_frame_step :: "EyeTrackCheckPoint option list \<Rightarrow> Time \<Rightarrow> EyeTrackCheckResult \<Rightarrow> Frame option \<Rightarrow> EyeTrackCheckResult" where
  "check_frame_step targets check_time res f =
     (case f of
        None \<Rightarrow> res
      | Some frame \<Rightarrow>
          (case Frame_Avg frame of
             None \<Rightarrow> res
           | Some avg \<Rightarrow>
               if check_time - Frame_GoTime frame > 0 then res
               else if Point_X avg \<le> 0 \<and> Point_Y avg \<le> 0 then res
               else check_targets targets (Point_X avg) (Point_Y avg) res))"

text \<open>
  \<open>delta_param\<close> is what \<^verbatim>\<open>strconv.Atoi\<close> made of the form value
  \<^verbatim>\<open>delta_millisecond\<close>: \<open>None\<close> when it is absent or not a number. The handler's output
  is the JSON encoding of the result map; the model returns the map.
\<close>

definition cutoff_time :: "int option \<Rightarrow> Time \<Rightarrow> Time" where
  "cutoff_time delta_param now =
     (let delta_millisecond = (case delta_param of None \<Rightarrow> 10 * 1000 | Some millisecond \<Rightarrow> millisecond)
      in now + (- delta_millisecond) * Millisecond)"

definition ServeEyeTrackCheck :: "EyeTribeConnection \<Rightarrow> int option \<Rightarrow> Time \<Rightarrow> EyeTrackCheckResult" where
  "ServeEyeTrackCheck c delta_param now =
     foldl (check_frame_step (Config_TargetList (CheckConfig c)) (cutoff_time delta_param now))
       Map.empty (FrameList c)"

definition check_fixate_step :: "EyeTrackCheckPoint option list \<Rightarrow> Time \<Rightarrow> EyeTrackCheckResult \<Rightarrow> FixateData \<Rightarrow> EyeTrackCheckResult" where
  "check_fixate_step targets check_time res data =
     (if check_time - Fixate_GoTime data > 0 then res
      else check_targets targets (Fixate_X data) (Fixate_Y data) res)"

definition ServeEyeTrackCheckFixation ::
  "EyeTribeConnection \<Rightarrow> int option \<Rightarrow> Time \<Rightarrow> Time \<Rightarrow> Time \<Rightarrow> failure + EyeTrackCheckResult" where
  "ServeEyeTrackCheckFixation c delta_param now now0 now1 =
     (case GetFixationDataList (CheckConfig c) (FrameList c) now0 now1 of
        Inl err \<Rightarrow> Inl err
      | Inr data_list \<Rightarrow>
          Inr (foldl (check_fixate_step (Config_TargetList (CheckConfig c)) (cutoff_time delta_param now))
                 Map.empty data_list))"

section \<open>Concrete inputs\<close>

text \<open>A frame with gaze point \<open>(x, y)\<close> received at \<open>t\<close>, and one without \<^verbatim>\<open>Avg\<close>.\<close>

definition frame_at :: "real \<Rightarrow> real \<Rightarrow> Time \<Rightarrow> Frame" where
  "frame_at x y t =
     \<lparr>Frame_Timestamp = [], Frame_Time = 0, Frame_Fix = False, Frame_State = 0,
      Frame_Raw = None, Frame_Avg = Some \<lparr>Point_X = x, Point_Y = y\<rparr>,
      Frame_LeftEye = None, Frame_RightEye = None, Frame_GoTime = t\<rparr>"

definition frame_without_avg :: "Time \<Rightarrow> Frame" where
  "frame_without_avg t =
     \<lparr>Frame_Timestamp = [], Frame_Time = 0, Frame_Fix = False, Frame_State = 0,
      Frame_Raw = None, Frame_Avg = None,
      Frame_LeftEye = None, Frame_RightEye = None, Frame_GoTime = t\<rparr>"

text \<open>A configuration with an empty, but present, fixation map: the defaults 50 and 100 apply.\<close>

definition default_config :: "EyeTrackCheckPoint option list \<Rightarrow> EyeTrackCheckConfig" where
  "default_config targets = \<lparr>Config_Fixation = Some Map.empty, Config_TargetList = targets\<rparr>"

definition ms :: "int \<Rightarrow> Time" where
  "ms n = n * Millisecond"

definition logo :: EyeTrackCheckPoint where
  "logo = \<lparr>CheckPoint_X = 0, CheckPoint_Y = 0, CheckPoint_Width = 50, CheckPoint_Height = 50,
           CheckPoint_Name = ''logo''\<rparr>"

definition heartbeat_ack :: OneFrameMessage where
  "heartbeat_ack =
     \<lparr>Msg_Category = ''heartbeat'', Msg_Request = [], Msg_StatusCode = 200,
      Msg_Values = Map.empty\<rparr>"

definition frame_message :: "Frame \<Rightarrow> OneFrameMessage" where
  "frame_message frame =
     \<lparr>Msg_Category = ''tracker'', Msg_Request = ''get'', Msg_StatusCode = 200,
      Msg_Values = [''frame'' \<mapsto> Some frame]\<rparr>"

text \<open>
  A status response with code 200 from a calibrated server that reports the heartbeat
  interval \<open>hb\<close>, a 1920 by 1080 screen and a frame rate of 30.
\<close>

definition status_response :: "real \<Rightarrow> ResponseMessage" where
  "status_response hb =
     \<lparr>Response_Category = ''tracker'', Response_Request = ''get'', Response_StatusCode = 200,
      Response_Values =
        [''push'' \<mapsto> JBool False, ''iscalibrated'' \<mapsto> JBool True,
         ''heartbeatinterval'' \<mapsto> JNumber hb, ''screenresw'' \<mapsto> JNumber 1920,
         ''screenresh'' \<mapsto> JNumber 1080, ''framerate'' \<mapsto> JNumber 30]\<rparr>"

text \<open>A configuration whose fixation map sets the maximal distance to two million.\<close>

definition wide_config :: EyeTrackCheckConfig where
  "wide_config = \<lparr>Config_Fixation = Some [''max distance'' \<mapsto> 2000000], Config_TargetList = []\<rparr>"

section \<open>Vocabulary of the theorems\<close>

text \<open>
  \<open>far_from distance2 px py f\<close>: the entry \<open>f\<close> holds a frame with a gaze point that the
  loops do not skip, and the squared distance from \<open>(px, py)\<close> to that point exceeds
  \<open>distance2\<close>. With the variables \<^verbatim>\<open>PrevX\<close>, \<^verbatim>\<open>PrevY\<close> for \<open>px\<close>, \<open>py\<close> this is the
  test by which the detector's loop enters its first branch.
\<close>

definition far_from :: "real \<Rightarrow> real \<Rightarrow> real \<Rightarrow> Frame option \<Rightarrow> bool" where
  "far_from distance2 px py f =
     (case f of
        None \<Rightarrow> False
      | Some frame \<Rightarrow>
          (case Frame_Avg frame of
             None \<Rightarrow> False
           | Some avg \<Rightarrow>
               if Point_X avg \<le> 0 \<and> Point_Y avg \<le> 0 then False
               else distance2 < (px - Point_X avg) * (px - Point_X avg) +
                                (py - Point_Y avg) * (py - Point_Y avg)))"

text \<open>An entry of the frame list that is nil or whose frame has no \<^verbatim>\<open>Avg\<close>.\<close>

definition no_gaze_point :: "Frame option \<Rightarrow> bool" where
  "no_gaze_point f = (case f of None \<Rightarrow> True | Some frame \<Rightarrow> Frame_Avg frame = None)"

text \<open>
  For a status response: the field \<open>name\<close> is absent or a number, is absent or a boolean,
  is a number.
\<close>

definition number_or_absent :: "ResponseMessage \<Rightarrow> string \<Rightarrow> bool" where
  "number_or_absent r name =
     (case Response_Values r name of None \<Rightarrow> True | Some (JNumber x) \<Rightarrow> True | Some _ \<Rightarrow> False)"

definition bool_or_absent :: "ResponseMessage \<Rightarrow> string \<Rightarrow> bool" where
  "bool_or_absent r name =
     (case Response_Values r name of None \<Rightarrow> True | Some (JBool b) \<Rightarrow> True | Some _ \<Rightarrow> False)"

definition is_number :: "ResponseMessage \<Rightarrow> string \<Rightarrow> bool" where
  "is_number r name =
     (case Response_Values r name of Some (JNumber x) \<Rightarrow> True | _ \<Rightarrow> False)"

text \<open>
  The status responses \<open>CreateServerConnection\<close> accepts, among those whose fields have
  the types the code expects: code 200, calibrated, a heartbeat interval that is positive
  as an integer, and the three other numbers present.
\<close>

definition status_accepted :: "ResponseMessage \<Rightarrow> bool" where
  "status_accepted r =
     (Response_StatusCode r = 200 \<and>
      Response_Values r ''iscalibrated'' = Some (JBool True) \<and>
      (case Response_Values r ''heartbeatinterval'' of
         Some (JNumber hb) \<Rightarrow> 0 < int64_of_float64 hb
       | _ \<Rightarrow> False) \<and>
      is_number r ''screenresw'' \<and> is_number r ''screenresh'' \<and> is_number r ''framerate'')"

section \<open>The frame list is bounded\<close>

lemma AddOneFrame_below:
  assumes "int (length fl) < N"
  shows "AddOneFrame fl f N = Inr (fl @ [f])"
  using assms by (simp add: AddOneFrame_def)

lemma AddOneFrame_full:
  assumes "1 \<le> N" and "int (length fl) \<ge> N"
  shows "AddOneFrame fl f N = Inr (tl fl @ [f])"
proof (cases fl)
  case Nil
  with assms show ?thesis by simp
next
  case (Cons front rest)
  with assms show ?thesis by (simp add: AddOneFrame_def)
qed

lemma add_frames_keeps_last:
  assumes "1 \<le> N" and "int (length fl) \<le> N"
  shows "add_frames N fl fs = Inr (drop (length (fl @ fs) - nat N) (fl @ fs))"
  using assms(2)
proof (induction fs arbitrary: fl)
  case Nil
  then show ?case by simp
next
  case (Cons f fs)
  show ?case
  proof (cases "int (length fl) < N")
    case True
    then have step: "AddOneFrame fl f N = Inr (fl @ [f])"
      by (rule AddOneFrame_below)
    from True have "int (length (fl @ [f])) \<le> N" by simp
    from Cons.IH [OF this] step show ?thesis by simp
  next
    case False
    with Cons.prems have full: "int (length fl) = N" by simp
    with assms(1) have step: "AddOneFrame fl f N = Inr (tl fl @ [f])"
      by (simp add: AddOneFrame_full)
    from full assms(1) obtain front rest where fl: "fl = front # rest"
      by (cases fl) auto
    from full fl have len: "length rest + 1 = nat N" by simp
    then have "int (length (tl fl @ [f])) \<le> N" using fl by simp
    from Cons.IH [OF this] step fl len show ?thesis
      by (simp add: Suc_diff_le)
  qed
qed

text \<open>
  Claim C5. Starting from the empty frame list, with a capacity \<open>N\<close> of at least one, any
  run of \<open>AddOneFrame\<close> calls succeeds and leaves exactly the newest \<open>N\<close> frames (all of
  them when fewer were added), in the order they were added; so the length never exceeds
  \<open>N\<close>. One more call on that list drops its front element and nothing else when the
  list is full, and puts the new frame at the back.
\<close>

theorem FrameBuffer_keeps_newest:
  assumes "1 \<le> N"
  shows "add_frames N [] frames = Inr (drop (length frames - nat N) frames) \<and>
         int (length (drop (length frames - nat N) frames)) \<le> N \<and>
         (let buf = drop (length frames - nat N) frames
          in AddOneFrame buf f N =
             Inr (if int (length buf) = N then tl buf @ [f] else buf @ [f]))"
proof -
  let ?buf = "drop (length frames - nat N) frames"
  have a: "add_frames N [] frames = Inr ?buf"
    using add_frames_keeps_last [of N "[]" frames] assms by simp
  have b: "int (length ?buf) \<le> N" using assms by simp
  have c: "AddOneFrame ?buf f N = Inr (if int (length ?buf) = N then tl ?buf @ [f] else ?buf @ [f])"
  proof (cases "int (length ?buf) = N")
    case True
    with assms show ?thesis by (simp add: AddOneFrame_full)
  next
    case False
    with b have "int (length ?buf) < N" by linarith
    with False show ?thesis by (simp add: AddOneFrame_below)
  qed
  from a b c show ?thesis by (simp add: Let_def)
qed

text \<open>Capacity 3 and four frames pushed in order: the first is gone, then the second.\<close>

theorem FrameBuffer_keeps_newest_witness:
  "(1::int) \<le> 3 \<and>
   add_frames 3 []
     [Some (frame_at 1 1 0), Some (frame_at 2 2 1), None, Some (frame_at 4 4 3)] =
     Inr [Some (frame_at 2 2 1), None, Some (frame_at 4 4 3)] \<and>
   AddOneFrame [Some (frame_at 2 2 1), None, Some (frame_at 4 4 3)] (Some (frame_at 5 5 4)) 3 =
     Inr [None, Some (frame_at 4 4 3), Some (frame_at 5 5 4)]"
  using FrameBuffer_keeps_newest
    [of 3 "[Some (frame_at 1 1 0), Some (frame_at 2 2 1), None, Some (frame_at 4 4 3)]"
        "Some (frame_at 5 5 4)"]
  by (simp add: Let_def)

end
